theory Spec2Isabelle
  imports Complex_Main
begin

section \<open>JavaScript values and primitive operations\<close>

text \<open>
  The service in \<^verbatim>\<open>src/lib/huggingface.ts\<close> works on values of TypeScript type
  \<^verbatim>\<open>any\<close>. They are modelled by the JSON-shaped fragment of the JavaScript values
  together with \<^verbatim>\<open>undefined\<close>. Numbers are the integral ones; an object is the list of
  its own enumerable properties in property order; inherited properties, functions,
  symbols and cyclic structures are outside the model. A string is a list of code units
  below 256.
\<close>

datatype jsval =
    JUndefined
  | JNull
  | JBool bool
  | JNum int
  | JStr string
  | JArr "jsval list"
  | JObj "(string \<times> jsval) list"

text \<open>A thrown exception (or the reason of a rejected promise) is a value.\<close>

datatype exn = TypeError | SyntaxError | HostError string

definition and_then :: "exn + 'a \<Rightarrow> ('a \<Rightarrow> exn + 'b) \<Rightarrow> exn + 'b" where
  "and_then m f = (case m of Inl e \<Rightarrow> Inl e | Inr v \<Rightarrow> f v)"

text \<open>\<^verbatim>\<open>try { body } catch (e) { handler }\<close>: what the handler throws is not caught.\<close>

definition try_catch :: "exn + 'a \<Rightarrow> (exn \<Rightarrow> exn + 'a) \<Rightarrow> exn + 'a" where
  "try_catch body handler = (case body of Inl e \<Rightarrow> handler e | Inr v \<Rightarrow> Inr v)"

text \<open>\<^verbatim>\<open>Array.prototype.map\<close> with a callback that may throw: the first throw ends the map.\<close>

fun map_throw :: "('a \<Rightarrow> exn + 'b) \<Rightarrow> 'a list \<Rightarrow> exn + 'b list" where
  "map_throw f [] = Inr []"
| "map_throw f (x # xs) =
     (case f x of Inl e \<Rightarrow> Inl e
      | Inr y \<Rightarrow> (case map_throw f xs of Inl e \<Rightarrow> Inl e | Inr ys \<Rightarrow> Inr (y # ys)))"

text \<open>\<^verbatim>\<open>Array.prototype.forEach\<close> with a callback that updates the captured state.\<close>

fun forEach :: "('a \<Rightarrow> 's \<Rightarrow> exn + 's) \<Rightarrow> 'a list \<Rightarrow> 's \<Rightarrow> exn + 's" where
  "forEach f [] s = Inr s"
| "forEach f (x # xs) s = (case f x s of Inl e \<Rightarrow> Inl e | Inr s' \<Rightarrow> forEach f xs s')"

definition nl :: string where
  "nl = [CHR 0x0A]"

definition apos :: string where
  "apos = [CHR 0x27]"

definition digit_char :: "nat \<Rightarrow> char" where
  "digit_char d =
     (if d = 0 then CHR ''0'' else if d = 1 then CHR ''1'' else if d = 2 then CHR ''2''
      else if d = 3 then CHR ''3'' else if d = 4 then CHR ''4'' else if d = 5 then CHR ''5''
      else if d = 6 then CHR ''6'' else if d = 7 then CHR ''7'' else if d = 8 then CHR ''8''
      else CHR ''9'')"

text \<open>The decimal digits of a natural number, as \<^verbatim>\<open>String(n)\<close> prints an index or a length.\<close>

fun dec :: "nat \<Rightarrow> string" where
  "dec n = (if n < 10 then [digit_char n] else dec (n div 10) @ [digit_char (n mod 10)])"

declare dec.simps [simp del]

text \<open>\<^verbatim>\<open>Array.prototype.join\<close> on an array of strings.\<close>

definition join_with :: "string \<Rightarrow> string list \<Rightarrow> string" where
  "join_with sep xs = (case xs of [] \<Rightarrow> [] | y # ys \<Rightarrow> y @ concat (map (\<lambda>z. sep @ z) ys))"

text \<open>White space and line terminators, as \<^verbatim>\<open>\s\<close> and \<^verbatim>\<open>trim\<close> see them (code units below 256).\<close>

definition is_space :: "char \<Rightarrow> bool" where
  "is_space c \<longleftrightarrow>
     c \<in> set [CHR 0x09, CHR 0x0A, CHR 0x0B, CHR 0x0C, CHR 0x0D, CHR 0x20, CHR 0xA0]"

definition is_digit :: "char \<Rightarrow> bool" where
  "is_digit c \<longleftrightarrow> c \<in> set ''0123456789''"

definition trim :: "string \<Rightarrow> string" where
  "trim s = rev (dropWhile is_space (rev (dropWhile is_space s)))"

text \<open>\<^verbatim>\<open>ToBoolean\<close>.\<close>

fun truthy :: "jsval \<Rightarrow> bool" where
  "truthy JUndefined = False"
| "truthy JNull = False"
| "truthy (JBool b) = b"
| "truthy (JNum n) = (n \<noteq> 0)"
| "truthy (JStr s) = (s \<noteq> [])"
| "truthy (JArr xs) = True"
| "truthy (JObj kvs) = True"

text \<open>\<^verbatim>\<open>a || b\<close> on values, and on an optional string with a string default.\<close>

definition or_else :: "jsval \<Rightarrow> jsval \<Rightarrow> jsval" where
  "or_else a b = (if truthy a then a else b)"

definition str_or :: "string option \<Rightarrow> string \<Rightarrow> string" where
  "str_or a b = (case a of None \<Rightarrow> b | Some s \<Rightarrow> if s = [] then b else s)"

text \<open>\<^verbatim>\<open>String(v)\<close>.\<close>

fun to_String :: "jsval \<Rightarrow> string" where
  "to_String JUndefined = ''undefined''"
| "to_String JNull = ''null''"
| "to_String (JBool b) = (if b then ''true'' else ''false'')"
| "to_String (JNum n) = (if n < 0 then CHR ''-'' # dec (nat (- n)) else dec (nat n))"
| "to_String (JStr s) = s"
| "to_String (JArr xs) =
     join_with '',''
       (map (\<lambda>x. case x of JUndefined \<Rightarrow> [] | JNull \<Rightarrow> [] | _ \<Rightarrow> to_String x) xs)"
| "to_String (JObj kvs) = ''[object Object]''"

text \<open>\<^verbatim>\<open>xs[i]\<close> on an array: \<^verbatim>\<open>undefined\<close> out of range.\<close>

definition nth_js :: "jsval list \<Rightarrow> nat \<Rightarrow> jsval" where
  "nth_js xs i = (if i < length xs then xs ! i else JUndefined)"

definition nth_str :: "string list \<Rightarrow> nat \<Rightarrow> string option" where
  "nth_str xs i = (if i < length xs then Some (xs ! i) else None)"

text \<open>\<^verbatim>\<open>Object.keys(v)\<close>: throws on \<^verbatim>\<open>undefined\<close> and \<^verbatim>\<open>null\<close>.\<close>

fun Object_keys :: "jsval \<Rightarrow> exn + string list" where
  "Object_keys JUndefined = Inl TypeError"
| "Object_keys JNull = Inl TypeError"
| "Object_keys (JBool b) = Inr []"
| "Object_keys (JNum n) = Inr []"
| "Object_keys (JStr s) = Inr (map dec [0..<length s])"
| "Object_keys (JArr xs) = Inr (map dec [0..<length xs])"
| "Object_keys (JObj kvs) = Inr (map fst kvs)"

definition index_of_key :: "string \<Rightarrow> nat \<Rightarrow> nat option" where
  "index_of_key k n = find (\<lambda>i. dec i = k) [0..<n]"

text \<open>\<^verbatim>\<open>row[col]\<close>: throws on \<^verbatim>\<open>undefined\<close> and \<^verbatim>\<open>null\<close>, \<^verbatim>\<open>undefined\<close> for a missing property.\<close>

fun get_prop :: "jsval \<Rightarrow> string \<Rightarrow> exn + jsval" where
  "get_prop JUndefined k = Inl TypeError"
| "get_prop JNull k = Inl TypeError"
| "get_prop (JBool b) k = Inr JUndefined"
| "get_prop (JNum n) k = Inr JUndefined"
| "get_prop (JStr s) k =
     Inr (case index_of_key k (length s) of
            Some i \<Rightarrow> JStr [s ! i]
          | None \<Rightarrow> if k = ''length'' then JNum (int (length s)) else JUndefined)"
| "get_prop (JArr xs) k =
     Inr (case index_of_key k (length xs) of
            Some i \<Rightarrow> xs ! i
          | None \<Rightarrow> if k = ''length'' then JNum (int (length xs)) else JUndefined)"
| "get_prop (JObj kvs) k = Inr (case map_of kvs k of None \<Rightarrow> JUndefined | Some v \<Rightarrow> v)"

text \<open>\<^verbatim>\<open>s.split(sep)\<close> for a separator of one character.\<close>

fun split_on :: "char \<Rightarrow> string \<Rightarrow> string list" where
  "split_on sep [] = [[]]"
| "split_on sep (c # cs) =
     (if c = sep then [] # split_on sep cs
      else (case split_on sep cs of [] \<Rightarrow> [[c]] | p # ps \<Rightarrow> (c # p) # ps))"

section \<open>Regular expressions\<close>

text \<open>
  The two regular-expression literals of the source use character classes,
  concatenation, \<^verbatim>\<open>?\<close>, \<^verbatim>\<open>+\<close> and a counted repetition. \<open>matches\<close> is the meaning of an
  expression; \<open>regex_test\<close> is \<^verbatim>\<open>RegExp.prototype.test\<close> without flags (some substring
  matches), computed with derivatives.
\<close>

datatype regex = Fail | Empty | Cls "char \<Rightarrow> bool" | Cat regex regex | Alt regex regex
  | Many regex

inductive matches :: "regex \<Rightarrow> string \<Rightarrow> bool" where
  m_Empty: "matches Empty []"
| m_Cls: "p c \<Longrightarrow> matches (Cls p) [c]"
| m_Cat: "matches r u \<Longrightarrow> matches s v \<Longrightarrow> matches (Cat r s) (u @ v)"
| m_AltL: "matches r u \<Longrightarrow> matches (Alt r s) u"
| m_AltR: "matches s u \<Longrightarrow> matches (Alt r s) u"
| m_Many0: "matches (Many r) []"
| m_Many1: "matches r u \<Longrightarrow> matches (Many r) v \<Longrightarrow> matches (Many r) (u @ v)"

fun nullable :: "regex \<Rightarrow> bool" where
  "nullable Fail = False"
| "nullable Empty = True"
| "nullable (Cls p) = False"
| "nullable (Cat r s) = (nullable r \<and> nullable s)"
| "nullable (Alt r s) = (nullable r \<or> nullable s)"
| "nullable (Many r) = True"

fun alt :: "regex \<Rightarrow> regex \<Rightarrow> regex" where
  "alt Fail s = s"
| "alt r Fail = r"
| "alt r s = Alt r s"

fun cat :: "regex \<Rightarrow> regex \<Rightarrow> regex" where
  "cat Fail s = Fail"
| "cat Empty s = s"
| "cat r s = Cat r s"

fun deriv :: "char \<Rightarrow> regex \<Rightarrow> regex" where
  "deriv c Fail = Fail"
| "deriv c Empty = Fail"
| "deriv c (Cls p) = (if p c then Empty else Fail)"
| "deriv c (Cat r s) =
     (if nullable r then alt (cat (deriv c r) s) (deriv c s) else cat (deriv c r) s)"
| "deriv c (Alt r s) = alt (deriv c r) (deriv c s)"
| "deriv c (Many r) = cat (deriv c r) (Many r)"

fun match_prefix :: "regex \<Rightarrow> string \<Rightarrow> bool" where
  "match_prefix r [] = nullable r"
| "match_prefix r (c # cs) = (nullable r \<or> match_prefix (deriv c r) cs)"

fun regex_test :: "regex \<Rightarrow> string \<Rightarrow> bool" where
  "regex_test r [] = nullable r"
| "regex_test r (c # cs) = (match_prefix r (c # cs) \<or> regex_test r cs)"

definition opt :: "regex \<Rightarrow> regex" where
  "opt r = Alt Empty r"

definition some1 :: "regex \<Rightarrow> regex" where
  "some1 r = Cat r (Many r)"

fun exactly :: "nat \<Rightarrow> regex \<Rightarrow> regex" where
  "exactly 0 r = Empty"
| "exactly (Suc n) r = Cat r (exactly n r)"

fun at_most :: "nat \<Rightarrow> regex \<Rightarrow> regex" where
  "at_most 0 r = Empty"
| "at_most (Suc n) r = opt (Cat r (at_most n r))"

definition between :: "nat \<Rightarrow> nat \<Rightarrow> regex \<Rightarrow> regex" where
  "between lo hi r = Cat (exactly lo r) (at_most (hi - lo) r)"

text \<open>\<^verbatim>\<open>/\S+@\S+\.\S+/\<close>\<close>

definition email_regex :: regex where
  "email_regex =
     Cat (some1 (Cls (\<lambda>c. \<not> is_space c)))
       (Cat (Cls (\<lambda>c. c = CHR ''@''))
         (Cat (some1 (Cls (\<lambda>c. \<not> is_space c)))
           (Cat (Cls (\<lambda>c. c = CHR ''.''))
             (some1 (Cls (\<lambda>c. \<not> is_space c))))))"

text \<open>\<^verbatim>\<open>/[\+]?[1-9]?[\d\s\-\(\)]{7,15}/\<close>\<close>

definition phone_regex :: regex where
  "phone_regex =
     Cat (opt (Cls (\<lambda>c. c = CHR ''+'')))
       (Cat (opt (Cls (\<lambda>c. c \<in> set ''123456789'')))
         (between 7 15
           (Cls (\<lambda>c. is_digit c \<or> is_space c \<or> c = CHR ''-'' \<or> c = CHR ''('' \<or> c = CHR '')''))))"

section \<open>The platform and the remote collaborators\<close>

record AIResponse =
  success :: bool
  data :: "jsval option"
  error :: "string option"

record tg_parameters =
  max_new_tokens :: nat
  temperature :: rat
  top_p :: rat
  return_full_text :: bool

record tg_request =
  model :: string
  inputs :: string
  parameters :: tg_parameters

record tg_response =
  generated_text :: "string option"

record vqa_inputs =
  question :: string
  image_b64 :: "string option"

record vqa_request =
  vqa_model :: string
  vqa_inputs :: vqa_inputs

record vqa_response =
  answer :: "string option"

record js_file =
  file_name :: string
  file_type :: string
  file_base64 :: string

text \<open>
  What the service calls and does not define: the two endpoints of the inference
  client, \<^verbatim>\<open>JSON.parse\<close>, \<^verbatim>\<open>JSON.stringify(v, null, 2)\<close>, \<^verbatim>\<open>Date.parse\<close> (\<open>None\<close> is NaN) and
  \<^verbatim>\<open>FileReader.readAsDataURL\<close> (\<open>Inl\<close> is the \<^verbatim>\<open>onerror\<close> callback). Each public
  operation calls its endpoint once, so the outcome of a call is a function of the
  request.
\<close>

record platform =
  textGeneration :: "tg_request \<Rightarrow> exn + tg_response"
  visualQuestionAnswering :: "vqa_request \<Rightarrow> exn + vqa_response"
  JSON_parse :: "string \<Rightarrow> exn + jsval"
  JSON_stringify :: "jsval \<Rightarrow> exn + string"
  Date_parse :: "string \<Rightarrow> int option"
  readAsDataURL :: "js_file \<Rightarrow> exn + string"

section \<open>The service\<close>

definition model_name :: string where
  "model_name = ''Qwen/Qwen2.5-VL-7B-Instruct''"

subsection \<open>Private helpers\<close>

definition fileToBase64 :: "platform \<Rightarrow> js_file \<Rightarrow> exn + string option" where
  "fileToBase64 env file =
     and_then (readAsDataURL env file)
       (\<lambda>result. Inr (nth_str (split_on CHR '','' result) 1))"

text \<open>
  The payload as the specification words it: the remainder of the string after its
  first comma (nothing when there is no comma).
\<close>

definition remainder_after_first_comma :: "string \<Rightarrow> string" where
  "remainder_after_first_comma s = drop 1 (dropWhile (\<lambda>c. c \<noteq> CHR '','') s)"

definition createDataSummary :: "platform \<Rightarrow> jsval list \<Rightarrow> string \<Rightarrow> exn + string" where
  "createDataSummary env rows filename =
     (if length rows = 0 then Inr ''No data available''
      else
        and_then (Object_keys (or_else (nth_js rows 0) (JObj []))) (\<lambda>columns.
        let sampleRows = take 3 rows in
        and_then (JSON_stringify env (JArr sampleRows)) (\<lambda>preview.
        Inr (join_with nl
          [''Dataset: '' @ filename,
           ''Rows: '' @ dec (length rows),
           ''Columns: '' @ join_with '', '' columns,
           ''Sample Data: '' @ preview]))))"

record patterns =
  emails :: "string list"
  phones :: "string list"
  dates :: "string list"
  addresses :: "string list"

record analysis =
  quality_issues :: "jsval list"
  cleaning_recommendations :: "string list"
  column_analysis :: "(string \<times> jsval) list"
  patterns_detected :: patterns

definition js_of_analysis :: "analysis \<Rightarrow> jsval" where
  "js_of_analysis a =
     JObj [(''quality_issues'', JArr (quality_issues a)),
           (''cleaning_recommendations'', JArr (map JStr (cleaning_recommendations a))),
           (''column_analysis'', JObj (column_analysis a)),
           (''patterns_detected'',
              JObj [(''emails'', JArr (map JStr (emails (patterns_detected a)))),
                    (''phones'', JArr (map JStr (phones (patterns_detected a)))),
                    (''dates'', JArr (map JStr (dates (patterns_detected a)))),
                    (''addresses'', JArr (map JStr (addresses (patterns_detected a))))])]"

text \<open>Reading the result: an own property, and the column names listed under one pattern.\<close>

fun own :: "jsval \<Rightarrow> string \<Rightarrow> jsval option" where
  "own (JObj kvs) k = map_of kvs k"
| "own v k = None"

definition detected :: "string \<Rightarrow> jsval \<Rightarrow> jsval option" where
  "detected kind a = (case own a ''patterns_detected'' of None \<Rightarrow> None | Some p \<Rightarrow> own p kind)"

definition detected_columns :: "string \<Rightarrow> jsval \<Rightarrow> jsval list" where
  "detected_columns kind a = (case detected kind a of Some (JArr xs) \<Rightarrow> xs | _ \<Rightarrow> [])"

text \<open>The values of one column in the first ten rows that are truthy.\<close>

definition column_sample :: "jsval list \<Rightarrow> string \<Rightarrow> exn + jsval list" where
  "column_sample rows col =
     and_then (map_throw (\<lambda>row. get_prop row col) (take 10 rows))
       (\<lambda>vals. Inr (filter truthy vals))"

text \<open>Some sampled value of the column, as a string, satisfies \<open>P\<close>.\<close>

definition sampled_any :: "(string \<Rightarrow> bool) \<Rightarrow> jsval list \<Rightarrow> string \<Rightarrow> bool" where
  "sampled_any P rows col =
     (case column_sample rows col of
        Inl e \<Rightarrow> False
      | Inr sample \<Rightarrow> list_ex (\<lambda>val. P (to_String val)) sample)"

text \<open>The callback of \<^verbatim>\<open>columns.forEach\<close>: each \<^verbatim>\<open>push\<close> appends the column name.\<close>

definition detect_column :: "platform \<Rightarrow> jsval list \<Rightarrow> string \<Rightarrow> patterns \<Rightarrow> exn + patterns" where
  "detect_column env rows col p =
     and_then (column_sample rows col) (\<lambda>sample.
       let p1 = (if list_ex (\<lambda>val. regex_test email_regex (to_String val)) sample
                 then p\<lparr>emails := emails p @ [col]\<rparr> else p);
           p2 = (if list_ex (\<lambda>val. regex_test phone_regex (to_String val)) sample
                 then p1\<lparr>phones := phones p1 @ [col]\<rparr> else p1);
           p3 = (if list_ex (\<lambda>val. Date_parse env (to_String val) \<noteq> None) sample
                 then p2\<lparr>dates := dates p2 @ [col]\<rparr> else p2)
       in Inr p3)"

definition generateFallbackAnalysis :: "platform \<Rightarrow> jsval list \<Rightarrow> exn + jsval" where
  "generateFallbackAnalysis env rows =
     (if length rows = 0 then Inr (JObj [])
      else
        and_then (Object_keys (or_else (nth_js rows 0) (JObj []))) (\<lambda>columns.
        and_then
          (forEach (detect_column env rows) columns
             \<lparr>emails = [], phones = [], dates = [], addresses = []\<rparr>)
          (\<lambda>p. Inr (js_of_analysis
             \<lparr>quality_issues = [],
              cleaning_recommendations =
                [''Remove empty rows'', ''Trim whitespace'', ''Handle missing values''],
              column_analysis = [],
              patterns_detected = p\<rparr>))))"

subsection \<open>Prompts and requests\<close>

definition ocr_prompt :: "string \<Rightarrow> string option \<Rightarrow> string" where
  \<open>ocr_prompt extractedText imageContext =
     join_with nl
       [''You are an advanced OCR enhancement AI. Your task is to improve the accuracy and readability of extracted text from images.'',
        '''',
        ''Original OCR Text:'',
        extractedText,
        '''',
        (case imageContext of
           None \<Rightarrow> ''''
         | Some c \<Rightarrow> if c = [] then '''' else ''Image Context: '' @ c),
        '''',
        ''Please:'',
        ''1. Correct obvious OCR errors (common character misrecognitions like 0/O, 1/I/l, etc.)'',
        ''2. Fix spacing and formatting issues'',
        ''3. Complete truncated words based on context'',
        ''4. Organize the text into logical structure (tables, lists, paragraphs)'',
        ''5. Preserve all original information while improving readability'',
        '''',
        ''Return only the enhanced text without explanations.'']\<close>

definition clean_prompt :: "string \<Rightarrow> string \<Rightarrow> nat \<Rightarrow> string \<Rightarrow> string" where
  \<open>clean_prompt filename fileType totalRows dataPreview =
     join_with nl
       [''You are an expert data cleaning and structuring AI. Analyze this dataset and provide cleaning recommendations.'',
        '''',
        ''Dataset Info:'',
        ''- Filename: '' @ filename,
        ''- Type: '' @ fileType,
        ''- Total Rows: '' @ dec totalRows,
        ''- Sample Data (first 10 rows):'',
        dataPreview,
        '''',
        ''Please analyze and provide:'',
        ''1. Data quality issues identified'',
        ''2. Recommended cleaning steps'',
        ''3. Suggested column standardizations'',
        ''4. Pattern detection (emails, phones, dates, addresses)'',
        ''5. Data type recommendations for each column'',
        '''',
        ''Format your response as JSON with this structure:'',
        ''{'',
        ''  "quality_issues": ["issue1", "issue2"],'',
        ''  "cleaning_recommendations": ["step1", "step2"],'',
        ''  "column_analysis": {'',
        ''    "column_name": {'',
        ''      "type": "text|number|date|email|phone",'',
        ''      "issues": ["issue1"],'',
        ''      "suggestions": ["suggestion1"]'',
        ''    }'',
        ''  },'',
        ''  "patterns_detected": {'',
        ''    "emails": ["column_names"],'',
        ''    "phones": ["column_names"],'',
        ''    "dates": ["column_names"],'',
        ''    "addresses": ["column_names"]'',
        ''  }'',
        ''}'',
        '''',
        ''Return only valid JSON without explanations.'']\<close>

definition chat_prompt :: "string \<Rightarrow> string \<Rightarrow> string" where
  \<open>chat_prompt dataSummary userMessage =
     join_with nl
       [''You are DataMind AI, an expert data analytics assistant. You help users understand and analyze their data.'',
        '''',
        ''Current Dataset Context:'',
        dataSummary,
        '''',
        ''User Question: '' @ userMessage,
        '''',
        ''Please provide a helpful, insightful response about the user'' @ apos @ ''s data. Include:'',
        ''1. Direct answer to their question'',
        ''2. Relevant insights from their dataset'',
        ''3. Actionable recommendations'',
        ''4. Specific examples from their data when relevant'',
        '''',
        ''Keep responses conversational but informative. Use emojis sparingly for visual appeal.'']\<close>

definition image_prompt :: string where
  \<open>image_prompt =
     join_with nl
       [''Analyze this image and extract all visible text with high accuracy. Pay special attention to:'',
        ''1. Tables and structured data'',
        ''2. Forms and labels'',
        ''3. Handwritten text'',
        ''4. Numbers and dates'',
        ''5. Email addresses and phone numbers'',
        '''',
        ''Provide the extracted text in a clean, organized format.'']\<close>

definition ocr_request :: "string \<Rightarrow> string option \<Rightarrow> tg_request" where
  "ocr_request extractedText imageContext =
     \<lparr>model = model_name, inputs = ocr_prompt extractedText imageContext,
      parameters = \<lparr>max_new_tokens = 2000, temperature = 3 / 10, top_p = 9 / 10,
                    return_full_text = False\<rparr>\<rparr>"

definition clean_request :: "string \<Rightarrow> string \<Rightarrow> nat \<Rightarrow> string \<Rightarrow> tg_request" where
  "clean_request filename fileType totalRows dataPreview =
     \<lparr>model = model_name, inputs = clean_prompt filename fileType totalRows dataPreview,
      parameters = \<lparr>max_new_tokens = 1500, temperature = 2 / 10, top_p = 8 / 10,
                    return_full_text = False\<rparr>\<rparr>"

definition chat_request :: "string \<Rightarrow> string \<Rightarrow> tg_request" where
  "chat_request dataSummary userMessage =
     \<lparr>model = model_name, inputs = chat_prompt dataSummary userMessage,
      parameters = \<lparr>max_new_tokens = 1000, temperature = 7 / 10, top_p = 9 / 10,
                    return_full_text = False\<rparr>\<rparr>"

definition image_request :: "string option \<Rightarrow> vqa_request" where
  "image_request imageBase64 =
     \<lparr>vqa_model = model_name,
      vqa_inputs = \<lparr>question = image_prompt, image_b64 = imageBase64\<rparr>\<rparr>"

subsection \<open>Public operations\<close>

text \<open>
  An operation returns \<open>Inr\<close> of the response its promise resolves to, or \<open>Inl\<close> of
  the exception its promise rejects with. The calls of \<^verbatim>\<open>console.error\<close> in the handlers
  write a log line and change no result; they are left out.
\<close>

definition chat_default :: string where
  "chat_default =
     ''I'' @ apos @ ''m here to help analyze your data. Could you please rephrase your question?''"

definition chat_apology :: string where
  "chat_apology =
     ''I'' @ apos @ ''m experiencing some technical difficulties. Please try again.''"

definition enhanceOCRText :: "platform \<Rightarrow> string \<Rightarrow> string option \<Rightarrow> exn + AIResponse" where
  "enhanceOCRText env extractedText imageContext =
     try_catch
       (and_then (textGeneration env (ocr_request extractedText imageContext)) (\<lambda>response.
          Inr \<lparr>success = True,
               data = Some (JStr (str_or (map_option trim (generated_text response))
                                    extractedText)),
               error = None\<rparr>))
       (\<lambda>e. Inr \<lparr>success = False, data = Some (JStr extractedText),
                  error = Some ''Failed to enhance OCR text''\<rparr>)"

definition cleanAndStructureData ::
  "platform \<Rightarrow> jsval list \<Rightarrow> string \<Rightarrow> string \<Rightarrow> exn + AIResponse" where
  "cleanAndStructureData env rows filename fileType =
     try_catch
       (let sampleData = take 10 rows in
        and_then (JSON_stringify env (JArr sampleData)) (\<lambda>dataPreview.
        and_then (textGeneration env
                    (clean_request filename fileType (length rows) dataPreview)) (\<lambda>response.
        and_then
          (try_catch (JSON_parse env (str_or (generated_text response) ''{}''))
             (\<lambda>e. generateFallbackAnalysis env rows))
          (\<lambda>analysisResult.
             Inr \<lparr>success = True, data = Some analysisResult, error = None\<rparr>))))
       (\<lambda>e. and_then (generateFallbackAnalysis env rows) (\<lambda>fallback.
          Inr \<lparr>success = False, data = Some fallback,
               error = Some ''Failed to analyze data''\<rparr>))"

definition generateChatResponse ::
  "platform \<Rightarrow> string \<Rightarrow> jsval list \<Rightarrow> string \<Rightarrow> exn + AIResponse" where
  "generateChatResponse env userMessage dataContext filename =
     try_catch
       (and_then (createDataSummary env dataContext filename) (\<lambda>dataSummary.
        and_then (textGeneration env (chat_request dataSummary userMessage)) (\<lambda>response.
          Inr \<lparr>success = True,
               data = Some (JStr (str_or (map_option trim (generated_text response))
                                    chat_default)),
               error = None\<rparr>)))
       (\<lambda>e. Inr \<lparr>success = False, data = Some (JStr chat_apology),
                  error = Some ''Failed to generate response''\<rparr>)"

definition analyzeImageForOCR :: "platform \<Rightarrow> js_file \<Rightarrow> exn + AIResponse" where
  "analyzeImageForOCR env imageFile =
     try_catch
       (and_then (fileToBase64 env imageFile) (\<lambda>imageBase64.
        and_then (visualQuestionAnswering env (image_request imageBase64)) (\<lambda>response.
          Inr \<lparr>success = True, data = Some (JStr (str_or (answer response) '''')),
               error = None\<rparr>)))
       (\<lambda>e. Inr \<lparr>success = False, data = Some (JStr ''''),
                  error = Some ''Failed to analyze image''\<rparr>)"

section \<open>Sample platforms\<close>

text \<open>
  Concrete platforms on which the operations are evaluated. \<open>sample_JSON_parse\<close> agrees
  with \<^verbatim>\<open>JSON.parse\<close> on the empty text (a syntax error) and on the text \<^verbatim>\<open>{}\<close> (the
  empty object); \<open>sample_Date_parse\<close> is \<^verbatim>\<open>Date.parse\<close> on the date-only form
  \<^verbatim>\<open>YYYY-MM-DD\<close> of the ECMAScript date-time string format (milliseconds since
  1970-01-01 UTC) and NaN elsewhere.
\<close>

definition sample_JSON_parse :: "string \<Rightarrow> exn + jsval" where
  "sample_JSON_parse s = (if s = ''{}'' then Inr (JObj []) else Inl SyntaxError)"

definition digit_val :: "char \<Rightarrow> nat option" where
  "digit_val c = map_option fst (find (\<lambda>(d, x). x = c) (zip [0..<10] ''0123456789''))"

fun number_of_digits :: "string \<Rightarrow> nat \<Rightarrow> nat option" where
  "number_of_digits [] acc = Some acc"
| "number_of_digits (c # cs) acc =
     (case digit_val c of None \<Rightarrow> None | Some d \<Rightarrow> number_of_digits cs (10 * acc + d))"

definition leap_year :: "nat \<Rightarrow> bool" where
  "leap_year y \<longleftrightarrow> y mod 4 = 0 \<and> (y mod 100 \<noteq> 0 \<or> y mod 400 = 0)"

definition days_in_month :: "nat \<Rightarrow> nat \<Rightarrow> nat" where
  "days_in_month y m =
     (if m = 2 then (if leap_year y then 29 else 28)
      else if m \<in> set [4, 6, 9, 11] then 30 else 31)"

definition days_before_year :: "nat \<Rightarrow> int" where
  "days_before_year y =
     365 * (int y - 1970) + (int ((y - 1) div 4) - int ((y - 1) div 100) + int ((y - 1) div 400))
       - 477"

definition sample_Date_parse :: "string \<Rightarrow> int option" where
  "sample_Date_parse s =
     (if length s = 10 \<and> s ! 4 = CHR ''-'' \<and> s ! 7 = CHR ''-'' then
        (case (number_of_digits (take 4 s) 0, number_of_digits (take 2 (drop 5 s)) 0,
               number_of_digits (drop 8 s) 0) of
           (Some y, Some m, Some d) \<Rightarrow>
             if 1 \<le> m \<and> m \<le> 12 \<and> 1 \<le> d \<and> d \<le> days_in_month y m then
               Some (86400000 *
                 (days_before_year y + int (sum_list (map (days_in_month y) [1..<m]))
                    + int d - 1))
             else None
         | _ \<Rightarrow> None)
      else None)"

definition sample_stringify :: "jsval \<Rightarrow> exn + string" where
  "sample_stringify v = Inr (''['' @ to_String v @ '']'')"

definition sample_platform :: "exn + string option \<Rightarrow> platform" where
  "sample_platform outcome =
     \<lparr>textGeneration =
        (\<lambda>req. case outcome of Inl e \<Rightarrow> Inl e | Inr t \<Rightarrow> Inr \<lparr>generated_text = t\<rparr>),
      visualQuestionAnswering =
        (\<lambda>req. case outcome of Inl e \<Rightarrow> Inl e | Inr t \<Rightarrow> Inr \<lparr>answer = t\<rparr>),
      JSON_parse = sample_JSON_parse,
      JSON_stringify = sample_stringify,
      Date_parse = sample_Date_parse,
      readAsDataURL =
        (\<lambda>file. if file_name file = [] then Inl (HostError ''NotFoundError'')
                else Inr (''data:'' @ file_type file @ '';base64,'' @ file_base64 file))\<rparr>"

definition offline :: platform where
  "offline = sample_platform (Inl (HostError ''Failed to fetch''))"

definition replying :: "string option \<Rightarrow> platform" where
  "replying t = sample_platform (Inr t)"

text \<open>A small table: a column of e-mail addresses, one of ISO dates, one of free text.\<close>

definition contacts :: "jsval list" where
  "contacts =
     [JObj [(''email'', JStr ''user@domain.tld''), (''joined'', JStr ''2024-01-15''),
            (''note'', JStr ''hello world'')],
      JObj [(''email'', JStr ''a@b.c''), (''joined'', JStr ''2023-12-31''),
            (''note'', JStr '''')]]"

definition contacts_analysis :: jsval where
  "contacts_analysis =
     js_of_analysis
       \<lparr>quality_issues = [],
        cleaning_recommendations =
          [''Remove empty rows'', ''Trim whitespace'', ''Handle missing values''],
        column_analysis = [],
        patterns_detected =
          \<lparr>emails = [''email''], phones = [''joined''], dates = [''joined''],
           addresses = []\<rparr>\<rparr>"

section \<open>Regular expressions: the matcher computes the meaning\<close>

inductive_cases m_FailE: "matches Fail w"
inductive_cases m_EmptyE: "matches Empty w"
inductive_cases m_ClsE: "matches (Cls p) w"
inductive_cases m_CatE: "matches (Cat r s) w"
inductive_cases m_AltE: "matches (Alt r s) w"

lemma matches_alt: "matches (alt r s) w \<longleftrightarrow> matches r w \<or> matches s w"
  by (induction r s rule: alt.induct) (auto intro: matches.intros elim: m_FailE m_AltE)

lemma matches_Cat_iff: "matches (Cat r s) w \<longleftrightarrow> (\<exists>u v. w = u @ v \<and> matches r u \<and> matches s v)"
  by (blast intro: m_Cat elim: m_CatE)

lemma matches_Empty_iff: "matches Empty w \<longleftrightarrow> w = []"
  by (blast intro: m_Empty elim: m_EmptyE)

lemma matches_cat: "matches (cat r s) w \<longleftrightarrow> matches (Cat r s) w"
  by (induction r s rule: cat.induct) (auto simp: matches_Cat_iff matches_Empty_iff elim: m_FailE)

lemma nullable_matches: "nullable r \<longleftrightarrow> matches r []"
proof (induction r)
  case (Cat r s)
  then show ?case using m_Cat [of r "[]" s "[]"] by (auto elim: m_CatE)
qed (auto intro: matches.intros elim: m_FailE m_ClsE m_AltE)

lemma matches_Many_Cons:
  "matches (Many r) (c # w) \<longleftrightarrow> (\<exists>u v. w = u @ v \<and> matches r (c # u) \<and> matches (Many r) v)"
proof
  assume "matches (Many r) (c # w)"
  then show "\<exists>u v. w = u @ v \<and> matches r (c # u) \<and> matches (Many r) v"
  proof (induction "Many r" "c # w" arbitrary: w rule: matches.induct)
    case (m_Many1 u v)
    show ?case
    proof (cases u)
      case Nil
      with m_Many1 show ?thesis by simp
    next
      case (Cons a u')
      with m_Many1 show ?thesis by auto
    qed
  qed
next
  assume "\<exists>u v. w = u @ v \<and> matches r (c # u) \<and> matches (Many r) v"
  then obtain u v where "w = u @ v" "matches r (c # u)" "matches (Many r) v" by blast
  then show "matches (Many r) (c # w)" using m_Many1 [of r "c # u" v] by simp
qed

lemma matches_deriv: "matches (deriv c r) w \<longleftrightarrow> matches r (c # w)"
proof (induction r arbitrary: w)
  case Fail
  then show ?case by (auto elim: m_FailE)
next
  case Empty
  then show ?case by (auto elim: m_FailE m_EmptyE)
next
  case (Cls p)
  then show ?case by (auto intro: matches.intros elim: m_FailE m_EmptyE m_ClsE)
next
  case (Cat r s)
  have "matches (Cat r s) (c # w) \<longleftrightarrow>
        (\<exists>u v. w = u @ v \<and> matches r (c # u) \<and> matches s v) \<or> (nullable r \<and> matches s (c # w))"
    unfolding matches_Cat_iff [of r s] nullable_matches
    by (auto simp: Cons_eq_append_conv) 
  then show ?case
    by (auto simp: matches_alt matches_cat matches_Cat_iff Cat)
next
  case (Alt r s)
  then show ?case by (auto simp: matches_alt intro: matches.intros elim: m_AltE)
next
  case (Many r)
  then show ?case by (simp add: matches_cat matches_Cat_iff matches_Many_Cons)
qed

lemma match_prefix_iff: "match_prefix r w \<longleftrightarrow> (\<exists>u v. w = u @ v \<and> matches r u)"
proof (induction w arbitrary: r)
  case Nil
  then show ?case by (simp add: nullable_matches)
next
  case (Cons c cs)
  have "(\<exists>u v. c # cs = u @ v \<and> matches r u) \<longleftrightarrow>
        matches r [] \<or> (\<exists>u v. cs = u @ v \<and> matches r (c # u))"
    by (auto simp: Cons_eq_append_conv)
  then show ?case by (simp add: Cons nullable_matches matches_deriv)
qed

lemma regex_test_iff: "regex_test r w \<longleftrightarrow> (\<exists>a u b. w = a @ u @ b \<and> matches r u)"
proof (induction w)
  case Nil
  then show ?case by (simp add: nullable_matches)
next
  case (Cons c cs)
  have "(\<exists>a u b. c # cs = a @ u @ b \<and> matches r u) \<longleftrightarrow>
        (\<exists>u b. c # cs = u @ b \<and> matches r u) \<or> (\<exists>a u b. cs = a @ u @ b \<and> matches r u)"
    (is "?L \<longleftrightarrow> ?P \<or> ?Q")
  proof
    assume ?L
    then obtain a u b where h: "c # cs = a @ u @ b" "matches r u" by blast
    show "?P \<or> ?Q"
    proof (cases a)
      case Nil
      with h show ?thesis by auto
    next
      case (Cons x a')
      with h have "cs = a' @ u @ b" by simp
      with h show ?thesis by blast
    qed
  next
    assume "?P \<or> ?Q"
    then show ?L
    proof
      assume ?P
      then obtain u b where "c # cs = [] @ u @ b" "matches r u" by auto
      then show ?L by blast
    next
      assume ?Q
      then obtain a u b where "c # cs = (c # a) @ u @ b" "matches r u" by auto
      then show ?L by blast
    qed
  qed
  then show ?case using Cons by (simp add: match_prefix_iff del: match_prefix.simps)
qed

section \<open>The e-mail pattern\<close>

lemma matches_Cls_iff: "matches (Cls P) w \<longleftrightarrow> (\<exists>c. w = [c] \<and> P c)"
  by (blast intro: m_Cls elim: m_ClsE)

lemma matches_Many_Cls: "matches (Many (Cls P)) w \<longleftrightarrow> (\<forall>c\<in>set w. P c)"
proof
  assume "matches (Many (Cls P)) w"
  then show "\<forall>c\<in>set w. P c"
    by (induction "Many (Cls P)" w rule: matches.induct) (auto simp: matches_Cls_iff)
next
  assume "\<forall>c\<in>set w. P c"
  then show "matches (Many (Cls P)) w"
  proof (induction w)
    case Nil
    show ?case by (rule m_Many0)
  next
    case (Cons c w)
    then have "matches (Cls P) [c]" and "matches (Many (Cls P)) w"
      by (simp_all add: m_Cls)
    then show ?case
      using m_Many1 [of "Cls P" "[c]" w] by simp
  qed
qed

lemma matches_some1_Cls: "matches (some1 (Cls P)) w \<longleftrightarrow> w \<noteq> [] \<and> (\<forall>c\<in>set w. P c)"
proof
  assume "matches (some1 (Cls P)) w"
  then obtain c v where "w = [c] @ v" "P c" "\<forall>x\<in>set v. P x"
    unfolding some1_def matches_Cat_iff matches_Cls_iff matches_Many_Cls by blast
  then show "w \<noteq> [] \<and> (\<forall>c\<in>set w. P c)"
    by simp
next
  assume h: "w \<noteq> [] \<and> (\<forall>c\<in>set w. P c)"
  then obtain c v where w: "w = [c] @ v"
    by (cases w) auto
  with h have "matches (Cls P) [c]" and "matches (Many (Cls P)) v"
    by (simp_all add: matches_Cls_iff matches_Many_Cls)
  then show "matches (some1 (Cls P)) w"
    unfolding some1_def w by (rule m_Cat)
qed

text \<open>
  The pattern \<^verbatim>\<open>\S+@\S+\.\S+\<close> matches the texts \<open>u@d.t\<close> with \<open>u\<close>, \<open>d\<close> and \<open>t\<close>
  non-empty and free of white space, and the test accepts the strings that contain one.
\<close>

lemma matches_email_regex:
  "matches email_regex w \<longleftrightarrow>
     (\<exists>u d t. w = u @ ''@'' @ d @ ''.'' @ t \<and> u \<noteq> [] \<and> d \<noteq> [] \<and> t \<noteq> [] \<and>
        (\<forall>c\<in>set (u @ d @ t). \<not> is_space c))"
  (is "?L \<longleftrightarrow> ?R")
proof
  assume ?L
  then obtain u r1 where 1: "w = u @ r1" "u \<noteq> []" "\<forall>c\<in>set u. \<not> is_space c"
    and r1: "matches (Cat (Cls (\<lambda>c. c = CHR ''@''))
         (Cat (some1 (Cls (\<lambda>c. \<not> is_space c)))
           (Cat (Cls (\<lambda>c. c = CHR ''.''))
             (some1 (Cls (\<lambda>c. \<not> is_space c)))))) r1"
    unfolding email_regex_def matches_Cat_iff [of "some1 _"] matches_some1_Cls by blast
  from r1 obtain r2 where 2: "r1 = ''@'' @ r2"
    and r2: "matches (Cat (some1 (Cls (\<lambda>c. \<not> is_space c)))
           (Cat (Cls (\<lambda>c. c = CHR ''.''))
             (some1 (Cls (\<lambda>c. \<not> is_space c))))) r2"
    unfolding matches_Cat_iff [of "Cls _"] matches_Cls_iff by auto
  from r2 obtain d r3 where 3: "r2 = d @ r3" "d \<noteq> []" "\<forall>c\<in>set d. \<not> is_space c"
    and r3: "matches (Cat (Cls (\<lambda>c. c = CHR ''.''))
             (some1 (Cls (\<lambda>c. \<not> is_space c)))) r3"
    unfolding matches_Cat_iff [of "some1 _"] matches_some1_Cls by blast
  from r3 obtain t where 4: "r3 = ''.'' @ t" "t \<noteq> []" "\<forall>c\<in>set t. \<not> is_space c"
    unfolding matches_Cat_iff [of "Cls _"] matches_Cls_iff matches_some1_Cls by auto
  have "w = u @ ''@'' @ d @ ''.'' @ t"
    using 1 2 3 4 by simp
  moreover have "\<forall>c\<in>set (u @ d @ t). \<not> is_space c"
    using 1 3 4 by auto
  ultimately show ?R
    using 1 3 4 by blast
next
  assume ?R
  then obtain u d t where w: "w = u @ ''@'' @ d @ ''.'' @ t"
    and ne: "u \<noteq> []" "d \<noteq> []" "t \<noteq> []"
    and sp: "\<forall>c\<in>set (u @ d @ t). \<not> is_space c"
    by blast
  let ?S = "some1 (Cls (\<lambda>c. \<not> is_space c))"
  have mu: "matches ?S u" and md: "matches ?S d" and mt: "matches ?S t"
    using ne sp by (simp_all add: matches_some1_Cls)
  have at: "matches (Cls (\<lambda>c. c = CHR ''@'')) ''@''"
    and dot: "matches (Cls (\<lambda>c. c = CHR ''.'')) ''.''"
    by (simp_all add: matches_Cls_iff)
  show ?L
    unfolding email_regex_def w
    by (intro m_Cat mu at md dot mt)
qed

lemma regex_test_email_regex:
  "regex_test email_regex s \<longleftrightarrow>
     (\<exists>a u d t b. s = a @ u @ ''@'' @ d @ ''.'' @ t @ b \<and> u \<noteq> [] \<and> d \<noteq> [] \<and> t \<noteq> [] \<and>
        (\<forall>c\<in>set (u @ d @ t). \<not> is_space c))"
  (is "?L \<longleftrightarrow> ?R")
proof
  assume ?L
  then obtain a w b where s: "s = a @ w @ b" and "matches email_regex w"
    unfolding regex_test_iff by blast
  then obtain u d t where w: "w = u @ ''@'' @ d @ ''.'' @ t"
    and rest: "u \<noteq> []" "d \<noteq> []" "t \<noteq> []" "\<forall>c\<in>set (u @ d @ t). \<not> is_space c"
    unfolding matches_email_regex by blast
  have "s = a @ u @ ''@'' @ d @ ''.'' @ t @ b"
    using s w by simp
  with rest show ?R by blast
next
  assume ?R
  then obtain a u d t b where s: "s = a @ u @ ''@'' @ d @ ''.'' @ t @ b"
    and rest: "u \<noteq> []" "d \<noteq> []" "t \<noteq> []" "\<forall>c\<in>set (u @ d @ t). \<not> is_space c"
    by blast
  have "matches email_regex (u @ ''@'' @ d @ ''.'' @ t)"
    unfolding matches_email_regex using rest by blast
  moreover have "s = a @ (u @ ''@'' @ d @ ''.'' @ t) @ b"
    using s by simp
  ultimately show ?L
    unfolding regex_test_iff by blast
qed

section \<open>Exceptions: basic rules\<close>

lemma and_then_simps [simp]:
  "and_then (Inl e) f = Inl e"
  "and_then (Inr v) f = f v"
  by (simp_all add: and_then_def)

lemma try_catch_simps [simp]:
  "try_catch (Inl e) h = h e"
  "try_catch (Inr v) h = Inr v"
  by (simp_all add: try_catch_def)

lemma str_or_simps [simp]:
  "str_or None d = d"
  "str_or (Some []) d = d"
  "s \<noteq> [] \<Longrightarrow> str_or (Some s) d = s"
  by (simp_all add: str_or_def)

lemma sample_platform_simps [simp]:
  "textGeneration (sample_platform (Inl e)) req = Inl e"
  "textGeneration (sample_platform (Inr t)) req = Inr \<lparr>generated_text = t\<rparr>"
  "visualQuestionAnswering (sample_platform (Inl e)) vreq = Inl e"
  "visualQuestionAnswering (sample_platform (Inr t)) vreq = Inr \<lparr>answer = t\<rparr>"
  "JSON_parse (sample_platform out) = sample_JSON_parse"
  "JSON_stringify (sample_platform out) = sample_stringify"
  "Date_parse (sample_platform out) = sample_Date_parse"
  by (simp_all add: sample_platform_def)

section \<open>enhanceOCRText\<close>

text \<open>
  C3. When the remote call of \<open>enhanceOCRText\<close> throws, the operation returns exactly
  the response with \<open>success = False\<close>, the error text \<^verbatim>\<open>Failed to enhance OCR text\<close>
  and, as data, the input text unchanged, for every input text and image context.
\<close>

theorem enhanceOCRText_failure_passes_through:
  assumes "textGeneration env (ocr_request extractedText imageContext) = Inl e"
  shows "enhanceOCRText env extractedText imageContext =
           Inr \<lparr>success = False, data = Some (JStr extractedText),
                error = Some ''Failed to enhance OCR text''\<rparr>"
  using assms by (simp add: enhanceOCRText_def)

theorem enhanceOCRText_failure_passes_through_witness:
  "textGeneration offline (ocr_request ''T0TAL: 1O'' (Some ''receipt'')) =
     Inl (HostError ''Failed to fetch'') \<and>
   enhanceOCRText offline ''T0TAL: 1O'' (Some ''receipt'') =
     Inr \<lparr>success = False, data = Some (JStr ''T0TAL: 1O''),
          error = Some ''Failed to enhance OCR text''\<rparr>"
proof -
  have h: "textGeneration offline (ocr_request ''T0TAL: 1O'' (Some ''receipt'')) =
             Inl (HostError ''Failed to fetch'')"
    by (simp add: offline_def)
  show ?thesis
    using h enhanceOCRText_failure_passes_through [OF h] by simp
qed

section \<open>cleanAndStructureData\<close>

lemma generateFallbackAnalysis_empty: "generateFallbackAnalysis env [] = Inr (JObj [])"
  by (simp add: generateFallbackAnalysis_def)

lemma cleanAndStructureData_replied:
  assumes "JSON_stringify env (JArr (take 10 rows)) = Inr dataPreview"
    and "textGeneration env (clean_request filename fileType (length rows) dataPreview) =
           Inr response"
  shows "cleanAndStructureData env rows filename fileType =
           try_catch
             (and_then
                (try_catch (JSON_parse env (str_or (generated_text response) ''{}''))
                   (\<lambda>e. generateFallbackAnalysis env rows))
                (\<lambda>analysisResult.
                   Inr \<lparr>success = True, data = Some analysisResult, error = None\<rparr>))
             (\<lambda>e. and_then (generateFallbackAnalysis env rows) (\<lambda>fallback.
                Inr \<lparr>success = False, data = Some fallback,
                     error = Some ''Failed to analyze data''\<rparr>))"
  using assms by (simp add: cleanAndStructureData_def)

lemma cleanAndStructureData_threw:
  assumes "JSON_stringify env (JArr (take 10 rows)) = Inr dataPreview"
    and "textGeneration env (clean_request filename fileType (length rows) dataPreview) =
           Inl e"
  shows "cleanAndStructureData env rows filename fileType =
           and_then (generateFallbackAnalysis env rows) (\<lambda>fallback.
             Inr \<lparr>success = False, data = Some fallback,
                  error = Some ''Failed to analyze data''\<rparr>)"
  using assms by (simp add: cleanAndStructureData_def)

lemma sample_stringify_rows [simp]:
  "sample_stringify (JArr xs) = Inr (''['' @ to_String (JArr xs) @ '']'')"
  by (simp add: sample_stringify_def)

text \<open>
  C10. When the remote call of \<open>cleanAndStructureData\<close> succeeds and the generated text
  is absent or empty, the text \<^verbatim>\<open>{}\<close> is parsed in its place and the operation returns
  success with the empty object as data, whatever the rows are: the local fallback
  analysis is not computed.
\<close>

theorem cleanAndStructureData_empty_reply:
  assumes "JSON_stringify env (JArr (take 10 rows)) = Inr dataPreview"
    and "textGeneration env (clean_request filename fileType (length rows) dataPreview) =
           Inr response"
    and "generated_text response = None \<or> generated_text response = Some ''''"
    and "JSON_parse env ''{}'' = Inr (JObj [])"
  shows "cleanAndStructureData env rows filename fileType =
           Inr \<lparr>success = True, data = Some (JObj []), error = None\<rparr>"
proof -
  have "str_or (generated_text response) ''{}'' = ''{}''"
    using assms(3) by auto
  then show ?thesis
    by (simp add: cleanAndStructureData_replied [OF assms(1,2)] assms(4))
qed

theorem cleanAndStructureData_empty_reply_witness:
  "generateFallbackAnalysis (replying None) [JObj [(''a'', JStr ''x'')], JNull] = Inl TypeError \<and>
   cleanAndStructureData (replying None) [JObj [(''a'', JStr ''x'')], JNull] ''f.json'' ''json'' =
     Inr \<lparr>success = True, data = Some (JObj []), error = None\<rparr> \<and>
   cleanAndStructureData (replying (Some '''')) [JObj [(''a'', JStr ''x'')]] ''f.csv'' ''csv'' =
     Inr \<lparr>success = True, data = Some (JObj []), error = None\<rparr>"
proof -
  let ?rows = "[JObj [(''a'', JStr ''x'')], JNull]"
  have p: "JSON_parse (replying t) ''{}'' = Inr (JObj [])" for t
    by (simp add: replying_def sample_JSON_parse_def)
  have s: "JSON_stringify (replying t) (JArr (take 10 rows)) =
             Inr (''['' @ to_String (JArr (take 10 rows)) @ '']'')" for t rows
    by (simp add: replying_def)
  have g: "textGeneration (replying t) req = Inr \<lparr>generated_text = t\<rparr>" for t req
    by (simp add: replying_def)
  have a: "cleanAndStructureData (replying None) ?rows ''f.json'' ''json'' =
             Inr \<lparr>success = True, data = Some (JObj []), error = None\<rparr>"
    by (rule cleanAndStructureData_empty_reply [OF s g _ p]) simp
  have b: "cleanAndStructureData (replying (Some '''')) [JObj [(''a'', JStr ''x'')]] ''f.csv'' ''csv'' =
             Inr \<lparr>success = True, data = Some (JObj []), error = None\<rparr>"
    by (rule cleanAndStructureData_empty_reply [OF s g _ p]) simp
  have c: "generateFallbackAnalysis (replying None) ?rows = Inl TypeError"
    by (simp add: generateFallbackAnalysis_def nth_js_def or_else_def column_sample_def
        detect_column_def)
  show ?thesis using a b c by simp
qed

text \<open>
  C1, as amended. When the remote call of \<open>cleanAndStructureData\<close> succeeds with a
  non-empty text that \<^verbatim>\<open>JSON.parse\<close> rejects, and the local fallback analysis of the
  rows returns, the operation returns success with that fallback analysis as data.
\<close>

theorem cleanAndStructureData_unparsable_reply:
  assumes "JSON_stringify env (JArr (take 10 rows)) = Inr dataPreview"
    and "textGeneration env (clean_request filename fileType (length rows) dataPreview) =
           Inr response"
    and "generated_text response = Some t"
    and "t \<noteq> []"
    and "JSON_parse env t = Inl e"
    and "generateFallbackAnalysis env rows = Inr fallback"
  shows "cleanAndStructureData env rows filename fileType =
           Inr \<lparr>success = True, data = Some fallback, error = None\<rparr>"
  by (simp add: cleanAndStructureData_replied [OF assms(1,2)] assms(3-6))

theorem cleanAndStructureData_unparsable_reply_witness:
  "generateFallbackAnalysis (replying (Some ''Sure! Here is the analysis:''))
     [JObj [(''a'', JStr ''x'')]] =
     Inr (js_of_analysis
       \<lparr>quality_issues = [],
        cleaning_recommendations =
          [''Remove empty rows'', ''Trim whitespace'', ''Handle missing values''],
        column_analysis = [],
        patterns_detected = \<lparr>emails = [], phones = [], dates = [], addresses = []\<rparr>\<rparr>) \<and>
   cleanAndStructureData (replying (Some ''Sure! Here is the analysis:''))
     [JObj [(''a'', JStr ''x'')]] ''f.csv'' ''csv'' =
     Inr \<lparr>success = True,
          data = Some (js_of_analysis
            \<lparr>quality_issues = [],
             cleaning_recommendations =
               [''Remove empty rows'', ''Trim whitespace'', ''Handle missing values''],
             column_analysis = [],
             patterns_detected = \<lparr>emails = [], phones = [], dates = [], addresses = []\<rparr>\<rparr>),
          error = None\<rparr>"
proof -
  let ?t = "''Sure! Here is the analysis:''"
  let ?rows = "[JObj [(''a'', JStr ''x'')]]"
  have s: "JSON_stringify (replying (Some ?t)) (JArr (take 10 ?rows)) =
             Inr (''['' @ to_String (JArr (take 10 ?rows)) @ '']'')"
    by (simp add: replying_def)
  have g: "textGeneration (replying (Some ?t)) req = Inr \<lparr>generated_text = Some ?t\<rparr>" for req
    by (simp add: replying_def)
  have p: "JSON_parse (replying (Some ?t)) ?t = Inl SyntaxError"
    by (simp add: replying_def sample_JSON_parse_def)
  have f: "generateFallbackAnalysis (replying (Some ?t)) ?rows =
     Inr (js_of_analysis
       \<lparr>quality_issues = [],
        cleaning_recommendations =
          [''Remove empty rows'', ''Trim whitespace'', ''Handle missing values''],
        column_analysis = [],
        patterns_detected = \<lparr>emails = [], phones = [], dates = [], addresses = []\<rparr>\<rparr>)"
    by code_simp
  show ?thesis
    using f cleanAndStructureData_unparsable_reply [OF s g _ _ p f] by simp
qed

text \<open>
  C1 as stated fails: the empty text is not valid JSON, yet on it the operation parses
  \<^verbatim>\<open>{}\<close> and returns the empty object, which is not the fallback analysis of a
  non-empty array of rows.
\<close>

theorem cleanAndStructureData_unparsable_reply_counterexample:
  "textGeneration (replying (Some ''''))
     (clean_request ''f.csv'' ''csv'' 1 ''[[object Object]]'') =
     Inr \<lparr>generated_text = Some ''''\<rparr> \<and>
   JSON_parse (replying (Some '''')) '''' = Inl SyntaxError \<and>
   generateFallbackAnalysis (replying (Some '''')) [JObj [(''a'', JStr ''x'')]] =
     Inr (js_of_analysis
       \<lparr>quality_issues = [],
        cleaning_recommendations =
          [''Remove empty rows'', ''Trim whitespace'', ''Handle missing values''],
        column_analysis = [],
        patterns_detected = \<lparr>emails = [], phones = [], dates = [], addresses = []\<rparr>\<rparr>) \<and>
   cleanAndStructureData (replying (Some '''')) [JObj [(''a'', JStr ''x'')]] ''f.csv'' ''csv'' =
     Inr \<lparr>success = True, data = Some (JObj []), error = None\<rparr> \<and>
   JObj [] \<noteq> js_of_analysis
       \<lparr>quality_issues = [],
        cleaning_recommendations =
          [''Remove empty rows'', ''Trim whitespace'', ''Handle missing values''],
        column_analysis = [],
        patterns_detected = \<lparr>emails = [], phones = [], dates = [], addresses = []\<rparr>\<rparr>"
proof -
  have f: "generateFallbackAnalysis (replying (Some '''')) [JObj [(''a'', JStr ''x'')]] =
     Inr (js_of_analysis
       \<lparr>quality_issues = [],
        cleaning_recommendations =
          [''Remove empty rows'', ''Trim whitespace'', ''Handle missing values''],
        column_analysis = [],
        patterns_detected = \<lparr>emails = [], phones = [], dates = [], addresses = []\<rparr>\<rparr>)"
    by code_simp
  have c: "cleanAndStructureData (replying (Some '''')) [JObj [(''a'', JStr ''x'')]] ''f.csv'' ''csv'' =
     Inr \<lparr>success = True, data = Some (JObj []), error = None\<rparr>"
    by (simp add: cleanAndStructureData_def replying_def sample_JSON_parse_def)
  show ?thesis
    using f c by (simp add: replying_def sample_JSON_parse_def js_of_analysis_def)
qed

text \<open>
  C8. On the empty array the fallback analysis is the empty object, and it is the data
  of the result of \<open>cleanAndStructureData\<close> both when the parse of the remote output
  throws (success with fallback) and when the remote call throws (the error path).
\<close>

theorem cleanAndStructureData_no_rows:
  assumes "JSON_stringify env (JArr []) = Inr dataPreview"
  shows "generateFallbackAnalysis env [] = Inr (JObj []) \<and>
         (\<forall>response e.
            textGeneration env (clean_request filename fileType 0 dataPreview) = Inr response \<and>
            JSON_parse env (str_or (generated_text response) ''{}'') = Inl e \<longrightarrow>
            cleanAndStructureData env [] filename fileType =
              Inr \<lparr>success = True, data = Some (JObj []), error = None\<rparr>) \<and>
         (\<forall>e.
            textGeneration env (clean_request filename fileType 0 dataPreview) = Inl e \<longrightarrow>
            cleanAndStructureData env [] filename fileType =
              Inr \<lparr>success = False, data = Some (JObj []),
                   error = Some ''Failed to analyze data''\<rparr>)"
proof -
  have s: "JSON_stringify env (JArr (take 10 [])) = Inr dataPreview"
    using assms by simp
  show ?thesis
    using cleanAndStructureData_replied [OF s, of filename fileType]
      cleanAndStructureData_threw [OF s, of filename fileType]
    by (simp add: generateFallbackAnalysis_empty)
qed

theorem cleanAndStructureData_no_rows_witness:
  "JSON_stringify offline (JArr []) = Inr ''[]'' \<and>
   textGeneration (replying (Some ''not json'')) (clean_request ''f.csv'' ''csv'' 0 ''[]'') =
     Inr \<lparr>generated_text = Some ''not json''\<rparr> \<and>
   JSON_parse (replying (Some ''not json'')) (str_or (Some ''not json'') ''{}'') =
     Inl SyntaxError \<and>
   cleanAndStructureData (replying (Some ''not json'')) [] ''f.csv'' ''csv'' =
     Inr \<lparr>success = True, data = Some (JObj []), error = None\<rparr> \<and>
   textGeneration offline (clean_request ''f.csv'' ''csv'' 0 ''[]'') =
     Inl (HostError ''Failed to fetch'') \<and>
   cleanAndStructureData offline [] ''f.csv'' ''csv'' =
     Inr \<lparr>success = False, data = Some (JObj []), error = Some ''Failed to analyze data''\<rparr>"
proof -
  have s1: "JSON_stringify (replying (Some ''not json'')) (JArr []) = Inr ''[]''"
    by (simp add: replying_def join_with_def)
  have s2: "JSON_stringify offline (JArr []) = Inr ''[]''"
    by (simp add: offline_def join_with_def)
  have g1: "textGeneration (replying (Some ''not json'')) (clean_request ''f.csv'' ''csv'' 0 ''[]'') =
              Inr \<lparr>generated_text = Some ''not json''\<rparr>"
    by (simp add: replying_def)
  have p1: "JSON_parse (replying (Some ''not json'')) (str_or (Some ''not json'') ''{}'') =
              Inl SyntaxError"
    by (simp add: replying_def sample_JSON_parse_def)
  have g2: "textGeneration offline (clean_request ''f.csv'' ''csv'' 0 ''[]'') =
              Inl (HostError ''Failed to fetch'')"
    by (simp add: offline_def)
  show ?thesis
    using cleanAndStructureData_no_rows [OF s1, of "''f.csv''" "''csv''"]
      cleanAndStructureData_no_rows [OF s2, of "''f.csv''" "''csv''"] s2 g1 p1 g2
    by simp
qed

section \<open>fileToBase64\<close>

lemma split_on_no_sep: "sep \<notin> set s \<Longrightarrow> split_on sep s = [s]"
  by (induction s) auto

lemma split_on_append:
  "sep \<notin> set pre \<Longrightarrow> split_on sep (pre @ sep # rest) = pre # split_on sep rest"
  by (induction pre) auto

lemma remainder_after_first_comma_append:
  "CHR '','' \<notin> set pre \<Longrightarrow> remainder_after_first_comma (pre @ CHR '','' # rest) = rest"
  by (induction pre) (auto simp: remainder_after_first_comma_def)



text \<open>
  On a base64 data URL whose media type and payload hold no comma, the result is the
  payload.
\<close>

lemma fileToBase64_base64_data_url:
  assumes "readAsDataURL env file = Inr (''data:'' @ mediatype @ '';base64,'' @ payload)"
    and "CHR '','' \<notin> set mediatype"
    and "CHR '','' \<notin> set payload"
  shows "fileToBase64 env file = Inr (Some payload)"
proof -
  let ?pre = "''data:'' @ mediatype @ '';base64''"
  have url: "''data:'' @ mediatype @ '';base64,'' @ payload = ?pre @ CHR '','' # payload"
    by simp
  have pre: "CHR '','' \<notin> set ?pre"
    using assms(2) by simp
  have "split_on CHR '','' (?pre @ CHR '','' # payload) = [?pre, payload]"
    using split_on_append [OF pre, of payload] split_on_no_sep [OF assms(3)] by simp
  then show ?thesis
    unfolding fileToBase64_def assms(1) url by (simp add: nth_str_def)
qed




section \<open>createDataSummary\<close>

lemma digit_val_digit_char: "d < 10 \<Longrightarrow> digit_val (digit_char d) = Some d"
proof -
  assume "d < 10"
  then have "d \<in> set [0, 1, 2, 3, 4, 5, 6, 7, 8, 9]"
    by (simp add: numeral_eq_Suc less_Suc_eq)
  then show ?thesis
    by (auto simp: digit_val_def digit_char_def upt_rec [of _ 10])
qed

lemma number_of_digits_append:
  "number_of_digits (xs @ ys) acc =
     (case number_of_digits xs acc of None \<Rightarrow> None | Some n \<Rightarrow> number_of_digits ys n)"
  by (induction xs arbitrary: acc) (auto split: option.splits)

text \<open>\<open>dec\<close> prints the decimal numeral: reading its digits gives the number back.\<close>

lemma number_of_digits_dec: "number_of_digits (dec n) 0 = Some n"
proof (induction n rule: dec.induct)
  case (1 n)
  show ?case
  proof (cases "n < 10")
    case True
    then show ?thesis
      by (subst dec.simps) (simp add: digit_val_digit_char)
  next
    case False
    then have "number_of_digits (dec (n div 10)) 0 = Some (n div 10)"
      using "1" by simp
    with False show ?thesis
      by (subst dec.simps) (simp add: number_of_digits_append digit_val_digit_char)
  qed
qed

lemma Object_keys_or_else: "\<exists>ks. Object_keys (if truthy v then v else JObj []) = Inr ks"
  by (cases v) auto

lemma join_with_four: "join_with sep [a, b, c, d] = a @ sep @ b @ sep @ c @ sep @ d"
  by (simp add: join_with_def)

text \<open>
  C7. On the empty array \<open>createDataSummary\<close> returns the text \<^verbatim>\<open>No data available\<close>. On
  a non-empty array the summary is four lines: the file name, \<^verbatim>\<open>Rows:\<close> with the decimal
  numeral of the length of the whole array, \<^verbatim>\<open>Columns:\<close> with the keys of the first
  record joined by a comma and a space, and \<^verbatim>\<open>Sample Data:\<close> with the serialization of
  the first three records at most.
\<close>

theorem createDataSummary_summary:
  "createDataSummary env [] filename = Inr ''No data available'' \<and>
   (rows \<noteq> [] \<and> JSON_stringify env (JArr (take 3 rows)) = Inr preview \<longrightarrow>
      (\<exists>columns.
         Object_keys (if truthy (hd rows) then hd rows else JObj []) = Inr columns \<and>
         createDataSummary env rows filename =
           Inr (''Dataset: '' @ filename @ nl @
                ''Rows: '' @ dec (length rows) @ nl @
                ''Columns: '' @ join_with '', '' columns @ nl @
                ''Sample Data: '' @ preview)) \<and>
      number_of_digits (dec (length rows)) 0 = Some (length rows) \<and>
      length (take 3 rows) \<le> 3)"
proof -
  have empty: "createDataSummary env [] filename = Inr ''No data available''"
    by (simp add: createDataSummary_def)
  have full: "\<exists>columns.
         Object_keys (if truthy (hd rows) then hd rows else JObj []) = Inr columns \<and>
         createDataSummary env rows filename =
           Inr (''Dataset: '' @ filename @ nl @
                ''Rows: '' @ dec (length rows) @ nl @
                ''Columns: '' @ join_with '', '' columns @ nl @
                ''Sample Data: '' @ preview)"
    if ne: "rows \<noteq> []" and s: "JSON_stringify env (JArr (take 3 rows)) = Inr preview"
  proof -
    have first: "or_else (nth_js rows 0) (JObj []) =
                   (if truthy (hd rows) then hd rows else JObj [])"
      using ne by (simp add: or_else_def nth_js_def hd_conv_nth)
    obtain columns where k:
      "Object_keys (if truthy (hd rows) then hd rows else JObj []) = Inr columns"
      using Object_keys_or_else [of "hd rows"] by blast
    have "createDataSummary env rows filename =
           Inr (''Dataset: '' @ filename @ nl @
                ''Rows: '' @ dec (length rows) @ nl @
                ''Columns: '' @ join_with '', '' columns @ nl @
                ''Sample Data: '' @ preview)"
      using ne unfolding createDataSummary_def first k
      by (simp add: s join_with_four del: join_with_def)
    with k show ?thesis by blast
  qed
  show ?thesis
    using empty full by (simp add: number_of_digits_dec)
qed

theorem createDataSummary_summary_witness:
  "[JObj [(''name'', JStr ''Ada''), (''age'', JNum 36)], JObj [(''name'', JStr ''Bob'')],
    JObj [], JNum 4, JNull] \<noteq> [] \<and>
   JSON_stringify offline
     (JArr (take 3 [JObj [(''name'', JStr ''Ada''), (''age'', JNum 36)],
                    JObj [(''name'', JStr ''Bob'')], JObj [], JNum 4, JNull])) =
     Inr ''[[object Object],[object Object],[object Object]]'' \<and>
   createDataSummary offline [] ''f.csv'' = Inr ''No data available'' \<and>
   createDataSummary offline
     [JObj [(''name'', JStr ''Ada''), (''age'', JNum 36)], JObj [(''name'', JStr ''Bob'')],
      JObj [], JNum 4, JNull] ''f.csv'' =
     Inr (''Dataset: f.csv'' @ nl @ ''Rows: 5'' @ nl @ ''Columns: name, age'' @ nl @
          ''Sample Data: [[object Object],[object Object],[object Object]]'')"
proof -
  let ?rows = "[JObj [(''name'', JStr ''Ada''), (''age'', JNum 36)],
                JObj [(''name'', JStr ''Bob'')], JObj [], JNum 4, JNull]"
  have ne: "?rows \<noteq> []" by simp
  have s: "JSON_stringify offline (JArr (take 3 ?rows)) =
             Inr ''[[object Object],[object Object],[object Object]]''"
    by code_simp
  have d: "dec (Suc (Suc (Suc (Suc (Suc 0))))) = ''5''" by code_simp
  show ?thesis
    using createDataSummary_summary [of offline "''f.csv''" ?rows
        "''[[object Object],[object Object],[object Object]]''"] s
    by (simp add: d join_with_def)
qed

section \<open>generateFallbackAnalysis\<close>

lemma map_throw_length: "map_throw f xs = Inr ys \<Longrightarrow> length ys = length xs"
  by (induction xs arbitrary: ys) (auto split: sum.splits)

lemma column_sample_bounds:
  assumes "column_sample rows col = Inr sample"
  shows "length sample \<le> 10" and "\<forall>v\<in>set sample. truthy v"
proof -
  obtain vals where v: "map_throw (\<lambda>row. get_prop row col) (take 10 rows) = Inr vals"
    and s: "sample = filter truthy vals"
    using assms by (auto simp: column_sample_def and_then_def split: sum.splits)
  have "length vals \<le> 10"
    using map_throw_length [OF v] by simp
  moreover have "length (filter truthy vals) \<le> length vals"
    by (rule length_filter_le)
  ultimately show "length sample \<le> 10"
    unfolding s by linarith
  show "\<forall>v\<in>set sample. truthy v"
    unfolding s by simp
qed

lemma column_sample_first_ten: "column_sample (take 10 rows) col = column_sample rows col"
  by (simp add: column_sample_def)

lemma detect_column_result:
  assumes "detect_column env rows col p = Inr p'"
  shows "(\<exists>sample. column_sample rows col = Inr sample) \<and>
         emails p' =
           emails p @ (if sampled_any (regex_test email_regex) rows col then [col] else []) \<and>
         phones p' =
           phones p @ (if sampled_any (regex_test phone_regex) rows col then [col] else []) \<and>
         dates p' =
           dates p @ (if sampled_any (\<lambda>s. Date_parse env s \<noteq> None) rows col then [col] else []) \<and>
         addresses p' = addresses p"
proof (cases "column_sample rows col")
  case (Inl e)
  with assms show ?thesis by (simp add: detect_column_def)
next
  case (Inr sample)
  with assms have "p' =
     (let p1 = (if list_ex (\<lambda>val. regex_test email_regex (to_String val)) sample
                 then p\<lparr>emails := emails p @ [col]\<rparr> else p);
          p2 = (if list_ex (\<lambda>val. regex_test phone_regex (to_String val)) sample
                 then p1\<lparr>phones := phones p1 @ [col]\<rparr> else p1);
          p3 = (if list_ex (\<lambda>val. Date_parse env (to_String val) \<noteq> None) sample
                 then p2\<lparr>dates := dates p2 @ [col]\<rparr> else p2)
      in p3)"
    by (simp add: detect_column_def Let_def)
  then show ?thesis
    using Inr by (simp add: sampled_any_def Let_def)
qed

lemma forEach_detect_column:
  assumes "forEach (detect_column env rows) cols p = Inr p'"
  shows "(\<forall>c\<in>set cols. \<exists>sample. column_sample rows c = Inr sample) \<and>
         emails p' = emails p @ filter (sampled_any (regex_test email_regex) rows) cols \<and>
         phones p' = phones p @ filter (sampled_any (regex_test phone_regex) rows) cols \<and>
         dates p' = dates p @ filter (sampled_any (\<lambda>s. Date_parse env s \<noteq> None) rows) cols \<and>
         addresses p' = addresses p"
  using assms
proof (induction cols arbitrary: p)
  case Nil
  then show ?case by simp
next
  case (Cons c cols)
  from Cons.prems obtain q where q: "detect_column env rows c p = Inr q"
    and rest: "forEach (detect_column env rows) cols q = Inr p'"
    by (auto split: sum.splits)
  note step = detect_column_result [OF q]
  note ih = Cons.IH [OF rest]
  show ?case
    using step ih by simp
qed

lemma first_record: "rows \<noteq> [] \<Longrightarrow>
    or_else (nth_js rows 0) (JObj []) = (if truthy (hd rows) then hd rows else JObj [])"
  by (simp add: or_else_def nth_js_def hd_conv_nth)

text \<open>What the fallback analysis is, when it returns, on a non-empty array.\<close>

lemma generateFallbackAnalysis_result:
  assumes "generateFallbackAnalysis env rows = Inr a" and "rows \<noteq> []"
    and "Object_keys (if truthy (hd rows) then hd rows else JObj []) = Inr columns"
  shows "a = js_of_analysis
           \<lparr>quality_issues = [],
            cleaning_recommendations =
              [''Remove empty rows'', ''Trim whitespace'', ''Handle missing values''],
            column_analysis = [],
            patterns_detected =
              \<lparr>emails = filter (sampled_any (regex_test email_regex) rows) columns,
               phones = filter (sampled_any (regex_test phone_regex) rows) columns,
               dates = filter (sampled_any (\<lambda>s. Date_parse env s \<noteq> None) rows) columns,
               addresses = []\<rparr>\<rparr>"
    and "\<forall>c\<in>set columns. \<exists>sample. column_sample rows c = Inr sample"
proof -
  let ?p0 = "\<lparr>emails = [], phones = [], dates = [], addresses = []\<rparr>"
  obtain p where p: "forEach (detect_column env rows) columns ?p0 = Inr p"
    and a: "a = js_of_analysis
           \<lparr>quality_issues = [],
            cleaning_recommendations =
              [''Remove empty rows'', ''Trim whitespace'', ''Handle missing values''],
            column_analysis = [],
            patterns_detected = p\<rparr>"
    using assms
    by (auto simp: generateFallbackAnalysis_def first_record and_then_def split: sum.splits)
  note inv = forEach_detect_column [OF p]
  have "p = \<lparr>emails = filter (sampled_any (regex_test email_regex) rows) columns,
               phones = filter (sampled_any (regex_test phone_regex) rows) columns,
               dates = filter (sampled_any (\<lambda>s. Date_parse env s \<noteq> None) rows) columns,
               addresses = []\<rparr>"
    using inv by (cases p) simp
  with a show "a = js_of_analysis
           \<lparr>quality_issues = [],
            cleaning_recommendations =
              [''Remove empty rows'', ''Trim whitespace'', ''Handle missing values''],
            column_analysis = [],
            patterns_detected =
              \<lparr>emails = filter (sampled_any (regex_test email_regex) rows) columns,
               phones = filter (sampled_any (regex_test phone_regex) rows) columns,
               dates = filter (sampled_any (\<lambda>s. Date_parse env s \<noteq> None) rows) columns,
               addresses = []\<rparr>\<rparr>"
    by simp
  show "\<forall>c\<in>set columns. \<exists>sample. column_sample rows c = Inr sample"
    using inv by simp
qed

lemma detected_js_of_analysis:
  "detected ''emails'' (js_of_analysis b) = Some (JArr (map JStr (emails (patterns_detected b))))"
  "detected ''phones'' (js_of_analysis b) = Some (JArr (map JStr (phones (patterns_detected b))))"
  "detected ''dates'' (js_of_analysis b) = Some (JArr (map JStr (dates (patterns_detected b))))"
  "detected ''addresses'' (js_of_analysis b) =
     Some (JArr (map JStr (addresses (patterns_detected b))))"
  by (simp_all add: detected_def js_of_analysis_def)

text \<open>
  C9. For every array of rows on which \<open>generateFallbackAnalysis\<close> returns, the list
  \<^verbatim>\<open>patterns_detected.addresses\<close> of the returned object is empty when the array is
  non-empty, and the returned object is the empty object, with no such list, when the
  array is empty: no column name is ever added to it.
\<close>

theorem generateFallbackAnalysis_addresses_empty:
  assumes "generateFallbackAnalysis env rows = Inr a"
  shows "(rows = [] \<longrightarrow> a = JObj []) \<and>
         (rows \<noteq> [] \<longrightarrow> detected ''addresses'' a = Some (JArr []))"
proof (cases "rows = []")
  case True
  with assms show ?thesis by (simp add: generateFallbackAnalysis_empty)
next
  case False
  obtain columns where k:
    "Object_keys (if truthy (hd rows) then hd rows else JObj []) = Inr columns"
    using Object_keys_or_else [of "hd rows"] by blast
  show ?thesis
    using False
    by (simp add: generateFallbackAnalysis_result(1) [OF assms False k] detected_js_of_analysis)
qed

lemma contacts_fallback: "generateFallbackAnalysis offline contacts = Inr contacts_analysis"
  by code_simp

theorem generateFallbackAnalysis_addresses_empty_witness:
  "generateFallbackAnalysis offline contacts = Inr contacts_analysis \<and>
   contacts \<noteq> [] \<and> detected ''addresses'' contacts_analysis = Some (JArr []) \<and>
   generateFallbackAnalysis offline [] = Inr (JObj [])"
proof -
  have ne: "contacts \<noteq> []"
    by (simp add: contacts_def)
  have e: "generateFallbackAnalysis offline [] = Inr (JObj [])"
    by (rule generateFallbackAnalysis_empty)
  show ?thesis
    using generateFallbackAnalysis_addresses_empty [OF contacts_fallback]
      generateFallbackAnalysis_addresses_empty [OF e] contacts_fallback ne e
    by simp
qed

lemma sampled_any_all:
  assumes "column_sample rows col = Inr sample" and "sample \<noteq> []"
    and "\<forall>v\<in>set sample. P (to_String v)"
  shows "sampled_any P rows col"
proof -
  obtain v where "v \<in> set sample"
    using assms(2) by (cases sample) auto
  then show ?thesis
    using assms(1,3) by (auto simp: sampled_any_def list_ex_iff)
qed

lemma sampled_any_none:
  assumes "column_sample rows col = Inr sample" and "\<forall>v\<in>set sample. \<not> P (to_String v)"
  shows "\<not> sampled_any P rows col"
  using assms by (auto simp: sampled_any_def list_ex_iff)

lemma detected_columns_js_of_analysis:
  "detected_columns ''emails'' (js_of_analysis b) = map JStr (emails (patterns_detected b))"
  "detected_columns ''dates'' (js_of_analysis b) = map JStr (dates (patterns_detected b))"
  by (simp_all add: detected_columns_def detected_js_of_analysis)

text \<open>
  C5. The columns are the keys of the first record. The sample of a column is made of
  the non-empty (truthy) values of the column in the first ten rows, so it has at most
  ten values and the rows after the tenth do not count. A column with a sampled value,
  all of whose sampled values match \<^verbatim>\<open>\S+@\S+\.\S+\<close>, is listed under
  \<^verbatim>\<open>patterns_detected.emails\<close>; a column with a sampled value, all of whose sampled values
  \<^verbatim>\<open>Date.parse\<close> accepts (as it does ISO date strings), is listed under
  \<^verbatim>\<open>patterns_detected.dates\<close>; a column none of whose sampled values matches the e-mail
  pattern is not listed under emails, and one none of whose sampled values parses as a
  date is not listed under dates.
\<close>

theorem generateFallbackAnalysis_patterns:
  assumes "generateFallbackAnalysis env rows = Inr a" and "rows \<noteq> []"
    and "Object_keys (if truthy (hd rows) then hd rows else JObj []) = Inr columns"
    and "col \<in> set columns"
    and "column_sample rows col = Inr sample"
  shows "column_sample (take 10 rows) col = Inr sample \<and>
         length sample \<le> 10 \<and> (\<forall>v\<in>set sample. truthy v) \<and>
         (sample \<noteq> [] \<and> (\<forall>v\<in>set sample. regex_test email_regex (to_String v)) \<longrightarrow>
            JStr col \<in> set (detected_columns ''emails'' a)) \<and>
         (sample \<noteq> [] \<and> (\<forall>v\<in>set sample. Date_parse env (to_String v) \<noteq> None) \<longrightarrow>
            JStr col \<in> set (detected_columns ''dates'' a)) \<and>
         ((\<forall>v\<in>set sample. \<not> regex_test email_regex (to_String v)) \<longrightarrow>
            JStr col \<notin> set (detected_columns ''emails'' a)) \<and>
         ((\<forall>v\<in>set sample. Date_parse env (to_String v) = None) \<longrightarrow>
            JStr col \<notin> set (detected_columns ''dates'' a))"
proof -
  note a = generateFallbackAnalysis_result(1) [OF assms(1-3)]
  have em: "JStr col \<in> set (detected_columns ''emails'' a) \<longleftrightarrow>
              sampled_any (regex_test email_regex) rows col"
    using assms(4) by (auto simp: a detected_columns_js_of_analysis)
  have da: "JStr col \<in> set (detected_columns ''dates'' a) \<longleftrightarrow>
              sampled_any (\<lambda>s. Date_parse env s \<noteq> None) rows col"
    using assms(4) by (auto simp: a detected_columns_js_of_analysis)
  have "column_sample (take 10 rows) col = Inr sample"
    using assms(5) by (simp add: column_sample_first_ten)
  moreover have "length sample \<le> 10" and "\<forall>v\<in>set sample. truthy v"
    using column_sample_bounds [OF assms(5)] by simp_all
  moreover have "JStr col \<in> set (detected_columns ''emails'' a)"
    if "sample \<noteq> []" and "\<forall>v\<in>set sample. regex_test email_regex (to_String v)"
    unfolding em using sampled_any_all [OF assms(5) that] .
  moreover have "JStr col \<in> set (detected_columns ''dates'' a)"
    if "sample \<noteq> []" and "\<forall>v\<in>set sample. Date_parse env (to_String v) \<noteq> None"
    unfolding da using sampled_any_all [OF assms(5) that] .
  moreover have "JStr col \<notin> set (detected_columns ''emails'' a)"
    if "\<forall>v\<in>set sample. \<not> regex_test email_regex (to_String v)"
    unfolding em using sampled_any_none [OF assms(5) that] .
  moreover have "JStr col \<notin> set (detected_columns ''dates'' a)"
    if "\<forall>v\<in>set sample. Date_parse env (to_String v) = None"
    unfolding da
    using sampled_any_none [OF assms(5), of "\<lambda>s. Date_parse env s \<noteq> None"] that by simp
  ultimately show ?thesis by blast
qed

theorem generateFallbackAnalysis_patterns_witness:
  "generateFallbackAnalysis offline contacts = Inr contacts_analysis \<and> contacts \<noteq> [] \<and>
   Object_keys (if truthy (hd contacts) then hd contacts else JObj []) =
     Inr [''email'', ''joined'', ''note''] \<and>
   column_sample contacts ''email'' = Inr [JStr ''user@domain.tld'', JStr ''a@b.c''] \<and>
   regex_test email_regex (to_String (JStr ''user@domain.tld'')) \<and>
   regex_test email_regex (to_String (JStr ''a@b.c'')) \<and>
   JStr ''email'' \<in> set (detected_columns ''emails'' contacts_analysis) \<and>
   column_sample contacts ''joined'' = Inr [JStr ''2024-01-15'', JStr ''2023-12-31''] \<and>
   Date_parse offline (to_String (JStr ''2024-01-15'')) = Some 1705276800000 \<and>
   Date_parse offline (to_String (JStr ''2023-12-31'')) = Some 1703980800000 \<and>
   JStr ''joined'' \<in> set (detected_columns ''dates'' contacts_analysis) \<and>
   column_sample contacts ''note'' = Inr [JStr ''hello world''] \<and>
   \<not> regex_test email_regex (to_String (JStr ''hello world'')) \<and>
   Date_parse offline (to_String (JStr ''hello world'')) = None \<and>
   JStr ''note'' \<notin> set (detected_columns ''emails'' contacts_analysis) \<and>
   JStr ''note'' \<notin> set (detected_columns ''dates'' contacts_analysis)"
proof -
  have ne: "contacts \<noteq> []"
    by (simp add: contacts_def)
  have k: "Object_keys (if truthy (hd contacts) then hd contacts else JObj []) =
             Inr [''email'', ''joined'', ''note'']"
    by (simp add: contacts_def)
  have s1: "column_sample contacts ''email'' = Inr [JStr ''user@domain.tld'', JStr ''a@b.c'']"
    by (simp add: contacts_def column_sample_def)
  have s2: "column_sample contacts ''joined'' = Inr [JStr ''2024-01-15'', JStr ''2023-12-31'']"
    by (simp add: contacts_def column_sample_def)
  have s3: "column_sample contacts ''note'' = Inr [JStr ''hello world'']"
    by (simp add: contacts_def column_sample_def)
  have e1: "regex_test email_regex ''user@domain.tld''" by code_simp
  have e2: "regex_test email_regex ''a@b.c''" by code_simp
  have e3: "\<not> regex_test email_regex ''hello world''" by code_simp
  have d1: "Date_parse offline ''2024-01-15'' = Some 1705276800000" by code_simp
  have d2: "Date_parse offline ''2023-12-31'' = Some 1703980800000" by code_simp
  have d3: "Date_parse offline ''hello world'' = None" by code_simp
  show ?thesis
    using generateFallbackAnalysis_patterns [OF contacts_fallback ne k _ s1]
      generateFallbackAnalysis_patterns [OF contacts_fallback ne k _ s2]
      generateFallbackAnalysis_patterns [OF contacts_fallback ne k _ s3]
      contacts_fallback ne k s1 s2 s3 e1 e2 e3 d1 d2 d3
    by simp
qed

section \<open>Every failure carries a fallback\<close>

lemma enhanceOCRText_cases:
  "enhanceOCRText env extractedText imageContext =
     (case textGeneration env (ocr_request extractedText imageContext) of
        Inl e \<Rightarrow> Inr \<lparr>success = False, data = Some (JStr extractedText),
                      error = Some ''Failed to enhance OCR text''\<rparr>
      | Inr response \<Rightarrow>
          Inr \<lparr>success = True,
               data = Some (JStr (str_or (map_option trim (generated_text response))
                                    extractedText)),
               error = None\<rparr>)"
  by (simp add: enhanceOCRText_def split: sum.splits)

lemma generateChatResponse_cases:
  "generateChatResponse env userMessage dataContext filename =
     (case and_then (createDataSummary env dataContext filename)
             (\<lambda>dataSummary. textGeneration env (chat_request dataSummary userMessage)) of
        Inl e \<Rightarrow> Inr \<lparr>success = False, data = Some (JStr chat_apology),
                      error = Some ''Failed to generate response''\<rparr>
      | Inr response \<Rightarrow>
          Inr \<lparr>success = True,
               data = Some (JStr (str_or (map_option trim (generated_text response))
                                    chat_default)),
               error = None\<rparr>)"
  by (simp add: generateChatResponse_def and_then_def split: sum.splits)

lemma analyzeImageForOCR_cases:
  "analyzeImageForOCR env imageFile =
     (case and_then (fileToBase64 env imageFile)
             (\<lambda>imageBase64. visualQuestionAnswering env (image_request imageBase64)) of
        Inl e \<Rightarrow> Inr \<lparr>success = False, data = Some (JStr ''''),
                      error = Some ''Failed to analyze image''\<rparr>
      | Inr response \<Rightarrow>
          Inr \<lparr>success = True, data = Some (JStr (str_or (answer response) '''')),
               error = None\<rparr>)"
  by (simp add: analyzeImageForOCR_def and_then_def split: sum.splits)

lemma cleanAndStructureData_failure:
  assumes "cleanAndStructureData env rows filename fileType = Inr r" and "\<not> success r"
  shows "\<exists>fallback. generateFallbackAnalysis env rows = Inr fallback \<and>
           r = \<lparr>success = False, data = Some fallback,
                error = Some ''Failed to analyze data''\<rparr>"
  using assms
  by (auto simp: cleanAndStructureData_def and_then_def try_catch_def Let_def
      split: sum.splits)

text \<open>
  C4. Whenever a public operation returns a response with \<open>success = False\<close>, the data
  of the response is present: the input text for \<open>enhanceOCRText\<close>, the fallback
  analysis of the rows for \<open>cleanAndStructureData\<close>, the fixed apology for
  \<open>generateChatResponse\<close>, and the empty string for \<open>analyzeImageForOCR\<close>.
\<close>

theorem failure_carries_fallback:
  "(enhanceOCRText env extractedText imageContext = Inr r1 \<and> \<not> success r1 \<longrightarrow>
      data r1 = Some (JStr extractedText)) \<and>
   (cleanAndStructureData env rows filename fileType = Inr r2 \<and> \<not> success r2 \<longrightarrow>
      (\<exists>fallback. generateFallbackAnalysis env rows = Inr fallback \<and>
         data r2 = Some fallback)) \<and>
   (generateChatResponse env userMessage dataContext filename = Inr r3 \<and> \<not> success r3 \<longrightarrow>
      data r3 = Some (JStr chat_apology)) \<and>
   (analyzeImageForOCR env imageFile = Inr r4 \<and> \<not> success r4 \<longrightarrow>
      data r4 = Some (JStr ''''))"
proof -
  have 1: "data r1 = Some (JStr extractedText)"
    if "enhanceOCRText env extractedText imageContext = Inr r1" and "\<not> success r1"
    using that by (auto simp: enhanceOCRText_cases split: sum.splits)
  have 2: "\<exists>fallback. generateFallbackAnalysis env rows = Inr fallback \<and>
             data r2 = Some fallback"
    if "cleanAndStructureData env rows filename fileType = Inr r2" and "\<not> success r2"
    using cleanAndStructureData_failure [OF that] by auto
  have 3: "data r3 = Some (JStr chat_apology)"
    if "generateChatResponse env userMessage dataContext filename = Inr r3" and "\<not> success r3"
    using that by (auto simp: generateChatResponse_cases split: sum.splits)
  have 4: "data r4 = Some (JStr '''')"
    if "analyzeImageForOCR env imageFile = Inr r4" and "\<not> success r4"
    using that by (auto simp: analyzeImageForOCR_cases split: sum.splits)
  show ?thesis
    using 1 2 3 4 by blast
qed

theorem failure_carries_fallback_witness:
  "enhanceOCRText offline ''T0TAL: 1O'' None =
     Inr \<lparr>success = False, data = Some (JStr ''T0TAL: 1O''),
          error = Some ''Failed to enhance OCR text''\<rparr> \<and>
   cleanAndStructureData offline contacts ''contacts.csv'' ''csv'' =
     Inr \<lparr>success = False, data = Some contacts_analysis,
          error = Some ''Failed to analyze data''\<rparr> \<and>
   generateFallbackAnalysis offline contacts = Inr contacts_analysis \<and>
   generateChatResponse offline ''How many rows?'' contacts ''contacts.csv'' =
     Inr \<lparr>success = False, data = Some (JStr chat_apology),
          error = Some ''Failed to generate response''\<rparr> \<and>
   analyzeImageForOCR offline
     \<lparr>file_name = ''scan.png'', file_type = ''image/png'', file_base64 = ''AAAA''\<rparr> =
     Inr \<lparr>success = False, data = Some (JStr ''''), error = Some ''Failed to analyze image''\<rparr>"
proof -
  let ?f = "\<lparr>file_name = ''scan.png'', file_type = ''image/png'', file_base64 = ''AAAA''\<rparr>"
  let ?r1 = "\<lparr>success = False, data = Some (JStr ''T0TAL: 1O''),
              error = Some ''Failed to enhance OCR text''\<rparr>"
  let ?r2 = "\<lparr>success = False, data = Some contacts_analysis,
              error = Some ''Failed to analyze data''\<rparr>"
  let ?r3 = "\<lparr>success = False, data = Some (JStr chat_apology),
              error = Some ''Failed to generate response''\<rparr>"
  let ?r4 = "\<lparr>success = False, data = Some (JStr ''''),
              error = Some ''Failed to analyze image''\<rparr>"
  have a: "enhanceOCRText offline ''T0TAL: 1O'' None = Inr ?r1"
    by (simp add: enhanceOCRText_cases offline_def)
  have b: "cleanAndStructureData offline contacts ''contacts.csv'' ''csv'' = Inr ?r2"
    using contacts_fallback
    by (simp add: cleanAndStructureData_def offline_def)
  have c: "generateChatResponse offline ''How many rows?'' contacts ''contacts.csv'' = Inr ?r3"
    by (simp add: generateChatResponse_cases offline_def and_then_def split: sum.splits)
  have d: "analyzeImageForOCR offline ?f = Inr ?r4"
    by (simp add: analyzeImageForOCR_cases offline_def and_then_def split: sum.splits)
  show ?thesis
    using failure_carries_fallback [of offline "''T0TAL: 1O''" None ?r1 contacts
        "''contacts.csv''" "''csv''" ?r2 "''How many rows?''" contacts ?r3 ?f ?r4]
      a b c d contacts_fallback
    by simp
qed

section \<open>Which operations always resolve\<close>

lemma enhanceOCRText_resolves: "\<exists>r. enhanceOCRText env extractedText imageContext = Inr r"
  by (simp add: enhanceOCRText_cases split: sum.splits)

lemma generateChatResponse_resolves:
  "\<exists>r. generateChatResponse env userMessage dataContext filename = Inr r"
  by (simp add: generateChatResponse_cases split: sum.splits)

lemma analyzeImageForOCR_resolves: "\<exists>r. analyzeImageForOCR env imageFile = Inr r"
  by (simp add: analyzeImageForOCR_cases split: sum.splits)

lemma cleanAndStructureData_resolves:
  assumes "generateFallbackAnalysis env rows = Inr fallback"
  shows "\<exists>r. cleanAndStructureData env rows filename fileType = Inr r"
  using assms
  by (auto simp: cleanAndStructureData_def and_then_def try_catch_def Let_def
      split: sum.splits)

text \<open>The only exception \<open>cleanAndStructureData\<close> lets through is one of the fallback analysis.\<close>

lemma cleanAndStructureData_rejects_only_with_fallback:
  assumes "cleanAndStructureData env rows filename fileType = Inl e"
  shows "generateFallbackAnalysis env rows = Inl e"
  using assms
  by (auto simp: cleanAndStructureData_def and_then_def try_catch_def Let_def
      split: sum.splits)

lemma get_prop_returns:
  "row \<noteq> JUndefined \<Longrightarrow> row \<noteq> JNull \<Longrightarrow> \<exists>v. get_prop row col = Inr v"
  by (cases row) auto

lemma map_throw_returns:
  "\<forall>x\<in>set xs. \<exists>y. f x = Inr y \<Longrightarrow> \<exists>ys. map_throw f xs = Inr ys"
  by (induction xs) auto

lemma forEach_returns:
  "\<forall>x\<in>set xs. \<forall>s. \<exists>s'. f x s = Inr s' \<Longrightarrow> \<exists>s'. forEach f xs s = Inr s'"
proof (induction xs arbitrary: s)
  case Nil
  show ?case by simp
next
  case (Cons x xs)
  from Cons.prems obtain s1 where s1: "f x s = Inr s1"
    by (meson list.set_intros(1))
  have "\<exists>s2. forEach f xs s1 = Inr s2"
    using Cons.prems by (intro Cons.IH) simp
  with s1 show ?case by simp
qed

text \<open>
  The fallback analysis returns when none of the first ten rows is \<^verbatim>\<open>undefined\<close> or
  \<^verbatim>\<open>null\<close>, and then so does \<open>cleanAndStructureData\<close>.
\<close>

lemma generateFallbackAnalysis_returns:
  assumes "\<forall>row\<in>set (take 10 rows). row \<noteq> JUndefined \<and> row \<noteq> JNull"
  shows "\<exists>a. generateFallbackAnalysis env rows = Inr a"
proof (cases "rows = []")
  case True
  then show ?thesis by (simp add: generateFallbackAnalysis_empty)
next
  case False
  obtain columns where k:
    "Object_keys (if truthy (hd rows) then hd rows else JObj []) = Inr columns"
    using Object_keys_or_else [of "hd rows"] by blast
  have cs: "\<exists>sample. column_sample rows col = Inr sample" for col
  proof -
    have "\<exists>vals. map_throw (\<lambda>row. get_prop row col) (take 10 rows) = Inr vals"
      using assms by (intro map_throw_returns) (simp add: get_prop_returns)
    then show ?thesis
      by (auto simp: column_sample_def)
  qed
  have "\<exists>p'. detect_column env rows col p = Inr p'" for col p
  proof -
    obtain sample where "column_sample rows col = Inr sample"
      using cs by blast
    then show ?thesis
      by (simp add: detect_column_def Let_def)
  qed
  then obtain p where
    "forEach (detect_column env rows) columns
       \<lparr>emails = [], phones = [], dates = [], addresses = []\<rparr> = Inr p"
    using forEach_returns [of columns "detect_column env rows"] by blast
  then show ?thesis
    using False k by (simp add: generateFallbackAnalysis_def first_record)
qed

text \<open>
  C2 fails on the code. With a first record that has a column and a \<^verbatim>\<open>null\<close> row after
  it, the fallback analysis throws a TypeError at \<^verbatim>\<open>row[col]\<close>; the handler of
  \<open>cleanAndStructureData\<close> calls it outside any \<^verbatim>\<open>try\<close>, so the operation rejects, both
  when the remote call throws and when its text is not JSON.
\<close>

theorem cleanAndStructureData_rejects:
  "generateFallbackAnalysis offline [JObj [(''a'', JStr ''x'')], JNull] = Inl TypeError \<and>
   cleanAndStructureData offline [JObj [(''a'', JStr ''x'')], JNull] ''rows.json'' ''json'' =
     Inl TypeError \<and>
   cleanAndStructureData (replying (Some ''not json'')) [JObj [(''a'', JStr ''x'')], JNull]
     ''rows.json'' ''json'' = Inl TypeError"
  by code_simp

end
